theory Spec2Isabelle
  imports Complex_Main
begin

section \<open>Data model\<close>

text \<open>
  The tables of the migration (\<open>src/unnamed/part_000\<close>) as records. Only the columns that
  the booking, package, customer and payment services read or write are kept; timestamps
  maintained by the data layer (\<open>createdAt\<close>, \<open>updatedAt\<close>) are not modelled.
  Identifiers are the AUTO_INCREMENT integers, monetary columns (DECIMAL(12,2)) are
  rationals (what such a column can hold is \<open>decimalValue\<close> below), instants are
  milliseconds since the epoch.
\<close>

datatype booking_status = B_PENDING | PAID | CONFIRMED | CANCELED | COMPLETED

datatype payment_status = P_PENDING | SUCCESS | FAILED | EXPIRED | REFUND

datatype customer_status = PROSPECT | ACTIVE | LOYAL

record customer =
  c_id :: nat
  c_name :: string
  c_email :: string
  c_phone :: "string option"
  c_status :: customer_status

record travel_package =
  tp_id :: nat
  tp_name :: string
  tp_price :: rat
  tp_quota :: int
  tp_isActive :: bool

record booking =
  b_id :: nat
  b_bookingCode :: string
  b_customerId :: nat
  b_packageId :: nat
  b_participants :: int
  b_totalAmount :: rat
  b_departureDate :: nat
  b_status :: booking_status
  b_notes :: "string option"

record payment =
  pay_id :: nat
  pay_bookingId :: nat
  pay_midtransOrderId :: string
  pay_midtransToken :: "string option"
  pay_paymentUrl :: "string option"
  pay_amount :: rat
  pay_status :: payment_status
  pay_paymentType :: "string option"
  pay_paidAt :: "nat option"
  pay_expiredAt :: "nat option"

record db =
  customers :: "customer list"
  travelPackages :: "travel_package list"
  bookings :: "booking list"
  payments :: "payment list"

text \<open>
  A thrown error. \<open>HttpError c m\<close> is \<open>new Error(m)\<close> with \<open>statusCode = c\<close>; the error
  kinds of the specification are the status codes: NotFound 404, InvalidState 400,
  Forbidden 403, Internal 500. \<open>TypeError\<close> is a property read on \<open>null\<close>; \<open>P2002\<close>,
  \<open>P2020\<close> and \<open>P2025\<close> are the data layer's unique-constraint, value-out-of-range and
  record-not-found errors.
\<close>

datatype error = HttpError nat string | TypeError | P2002 | P2020 | P2025

section \<open>Column types\<close>

text \<open>
  What the columns of the migration can hold. An INTEGER column holds the 32-bit signed
  integers. A DECIMAL(12,2) column holds the numbers of two decimals between
  -9999999999.99 and 9999999999.99: a number written to it is rounded to two decimals,
  half away from zero, and the write is refused with the out-of-range error when the
  rounded number lies outside.
\<close>

definition fitsInt :: "int \<Rightarrow> bool" where
  "fitsInt n = (- 2147483648 \<le> n \<and> n \<le> 2147483647)"

definition roundDecimal :: "rat \<Rightarrow> rat" where
  "roundDecimal x =
     (if 0 \<le> x then of_int \<lfloor>x * 100 + 1 / 2\<rfloor> / 100
      else - (of_int \<lfloor>- x * 100 + 1 / 2\<rfloor> / 100))"

definition fitsDecimal :: "rat \<Rightarrow> bool" where
  "fitsDecimal x = (\<bar>roundDecimal x\<bar> \<le> 999999999999 / 100)"

text \<open>The values a DECIMAL(12,2) column returns.\<close>

definition decimalValue :: "rat \<Rightarrow> bool" where
  "decimalValue x = (of_int \<lfloor>x * 100\<rfloor> = x * 100 \<and> \<bar>x\<bar> \<le> 999999999999 / 100)"

section \<open>Queries of the data layer\<close>

definition findCustomer :: "db \<Rightarrow> nat \<Rightarrow> customer option" where
  "findCustomer d i = find (\<lambda>c. c_id c = i) (customers d)"

definition findPackage :: "db \<Rightarrow> nat \<Rightarrow> travel_package option" where
  "findPackage d i = find (\<lambda>p. tp_id p = i) (travelPackages d)"

definition findBooking :: "db \<Rightarrow> nat \<Rightarrow> booking option" where
  "findBooking d i = find (\<lambda>b. b_id b = i) (bookings d)"

definition findPaymentByOrderId :: "db \<Rightarrow> string \<Rightarrow> payment option" where
  "findPaymentByOrderId d oid = find (\<lambda>p. pay_midtransOrderId p = oid) (payments d)"

definition findPaymentOfBooking :: "db \<Rightarrow> nat \<Rightarrow> payment option" where
  "findPaymentOfBooking d bid = find (\<lambda>p. pay_bookingId p = bid) (payments d)"

text \<open>\<open>update({where: {id}, data})\<close>: the row with that key gets the new column values.\<close>

definition updateBookingRow :: "nat \<Rightarrow> (booking \<Rightarrow> booking) \<Rightarrow> db \<Rightarrow> db" where
  "updateBookingRow i f d = d\<lparr>bookings := map (\<lambda>b. if b_id b = i then f b else b) (bookings d)\<rparr>"

definition updatePaymentRow :: "nat \<Rightarrow> (payment \<Rightarrow> payment) \<Rightarrow> db \<Rightarrow> db" where
  "updatePaymentRow i f d = d\<lparr>payments := map (\<lambda>p. if pay_id p = i then f p else p) (payments d)\<rparr>"

definition updateCustomerRow :: "nat \<Rightarrow> (customer \<Rightarrow> customer) \<Rightarrow> db \<Rightarrow> db" where
  "updateCustomerRow i f d = d\<lparr>customers := map (\<lambda>c. if c_id c = i then f c else c) (customers d)\<rparr>"

text \<open>AUTO_INCREMENT: a key above every key in the table.\<close>

definition nextId :: "nat list \<Rightarrow> nat" where
  "nextId ids = Suc (foldr max ids 0)"

section \<open>Package service: capacity\<close>

record availability =
  isAvailable :: bool
  availableSlots :: int
  requestedParticipants :: int

text \<open>The relation filter \<open>status: { in: ['PENDING', 'PAID', 'CONFIRMED'] }\<close>.\<close>

definition slotHolding :: "booking_status \<Rightarrow> bool" where
  "slotHolding s = (s = B_PENDING \<or> s = PAID \<or> s = CONFIRMED)"

definition includedBookings :: "db \<Rightarrow> nat \<Rightarrow> booking list" where
  "includedBookings d packageId =
     filter (\<lambda>b. b_packageId b = packageId \<and> slotHolding (b_status b)) (bookings d)"

text \<open>\<open>checkAvailability\<close> of \<open>src/unnamed/part_008\<close>; the \<open>reduce\<close> is the left fold.\<close>

definition checkAvailability :: "db \<Rightarrow> nat \<Rightarrow> int \<Rightarrow> (error + availability) \<times> db" where
  "checkAvailability d packageId participants =
     (case findPackage d packageId of
        None \<Rightarrow> (Inl (HttpError 404 ''Travel package not found''), d)
      | Some travelPackage \<Rightarrow>
          if \<not> tp_isActive travelPackage
          then (Inl (HttpError 400 ''Travel package is not available''), d)
          else
            let bookedParticipants =
                  foldl (\<lambda>sum booking. sum + b_participants booking) 0
                    (includedBookings d packageId);
                availableSlots = tp_quota travelPackage - bookedParticipants
            in (Inr \<lparr>isAvailable = (availableSlots \<ge> participants),
                     availableSlots = availableSlots,
                     requestedParticipants = participants\<rparr>, d))"

text \<open>
  The specification's sum: the participants of the package's bookings whose status is
  PENDING, PAID or CONFIRMED.
\<close>

definition slotSum :: "db \<Rightarrow> nat \<Rightarrow> int" where
  "slotSum d packageId =
     (\<Sum>b \<leftarrow> bookings d.
        if b_packageId b = packageId \<and> b_status b \<in> {B_PENDING, PAID, CONFIRMED}
        then b_participants b else 0)"

text \<open>The same sum, said by exclusion: every booking of the package that is neither
  CANCELED nor COMPLETED.\<close>

definition nonClosedSum :: "db \<Rightarrow> nat \<Rightarrow> int" where
  "nonClosedSum d packageId =
     (\<Sum>b \<leftarrow> bookings d.
        if b_packageId b = packageId \<and> b_status b \<notin> {CANCELED, COMPLETED}
        then b_participants b else 0)"

section \<open>Customer service\<close>

definition getCustomerById :: "db \<Rightarrow> nat \<Rightarrow> (error + customer) \<times> db" where
  "getCustomerById d i =
     (case findCustomer d i of
        None \<Rightarrow> (Inl (HttpError 404 ''Customer not found''), d)
      | Some customer \<Rightarrow> (Inr customer, d))"

text \<open>The count \<open>status: { in: ['PAID', 'CONFIRMED', 'COMPLETED'] }\<close> of a customer's bookings.\<close>

definition paidBookingsCount :: "db \<Rightarrow> nat \<Rightarrow> nat" where
  "paidBookingsCount d customerId =
     length (filter (\<lambda>b. b_customerId b = customerId \<and>
                          (b_status b = PAID \<or> b_status b = CONFIRMED \<or> b_status b = COMPLETED))
               (bookings d))"

definition updateCustomerStatus :: "db \<Rightarrow> nat \<Rightarrow> (error + unit) \<times> db" where
  "updateCustomerStatus d customerId =
     (let bookingsCount = paidBookingsCount d customerId;
          newStatus = (if bookingsCount \<ge> 3 then LOYAL
                       else if bookingsCount \<ge> 1 then ACTIVE
                       else PROSPECT)
      in case findCustomer d customerId of
           None \<Rightarrow> (Inl P2025, d)
         | Some _ \<Rightarrow> (Inr (), updateCustomerRow customerId (\<lambda>c. c\<lparr>c_status := newStatus\<rparr>) d))"

section \<open>Booking service\<close>

text \<open>Decimal text of a number, as a template literal prints an integer.\<close>

definition digitChar :: "nat \<Rightarrow> char" where
  "digitChar k = ''0123456789'' ! k"

fun digitsOnto :: "nat \<Rightarrow> string \<Rightarrow> string" where
  "digitsOnto n acc =
     (if n < 10 then digitChar n # acc
      else digitsOnto (n div 10) (digitChar (n mod 10) # acc))"

declare digitsOnto.simps [simp del]

definition natText :: "nat \<Rightarrow> string" where
  "natText n = digitsOnto n []"

definition intText :: "int \<Rightarrow> string" where
  "intText i = (if 0 \<le> i then natText (nat i) else CHR ''-'' # natText (nat (- i)))"

definition getPackageById :: "db \<Rightarrow> nat \<Rightarrow> (error + travel_package) \<times> db" where
  "getPackageById d i =
     (case findPackage d i of
        None \<Rightarrow> (Inl (HttpError 404 ''Travel package not found''), d)
      | Some travelPackage \<Rightarrow> (Inr travelPackage, d))"

definition getBookingById :: "db \<Rightarrow> nat \<Rightarrow> (error + booking) \<times> db" where
  "getBookingById d i =
     (case findBooking d i of
        None \<Rightarrow> (Inl (HttpError 404 ''Booking not found''), d)
      | Some booking \<Rightarrow> (Inr booking, d))"

record booking_data =
  bd_customerId :: nat
  bd_packageId :: nat
  bd_participants :: int
  bd_departureDate :: nat
  bd_notes :: "string option"

text \<open>
  \<open>createBooking\<close> of \<open>src/src/services/bookingService.js\<close>. The insert writes
  \<open>participants\<close> to an INTEGER column and \<open>totalAmount\<close> to a DECIMAL(12,2) column: it is
  refused when either does not fit, and the row it returns holds the total as stored,
  rounded to two decimals. The product \<open>parseFloat(price) * participants\<close> is a double;
  the model multiplies exactly, because for a price of two decimals and a 32-bit count
  whose product fits the column the double is within 0.00001 of the exact product and so
  is stored as the same number. The booking code is filled in by the data layer on
  insert; its generator is not part of the sources, so the generated code is the
  parameter \<open>code\<close>, and the unique index on \<open>bookingCode\<close> rejects a code that is
  already in the table.
\<close>

definition createBooking :: "string \<Rightarrow> db \<Rightarrow> booking_data \<Rightarrow> (error + booking) \<times> db" where
  "createBooking code d bookingData =
     (case getCustomerById d (bd_customerId bookingData) of
        (Inl e, d1) \<Rightarrow> (Inl e, d1)
      | (Inr _, d1) \<Rightarrow>
     (case getPackageById d1 (bd_packageId bookingData) of
        (Inl e, d2) \<Rightarrow> (Inl e, d2)
      | (Inr travelPackage, d2) \<Rightarrow>
          if \<not> tp_isActive travelPackage
          then (Inl (HttpError 400 ''This travel package is not available''), d2)
          else
     (case checkAvailability d2 (bd_packageId bookingData) (bd_participants bookingData) of
        (Inl e, d3) \<Rightarrow> (Inl e, d3)
      | (Inr availability, d3) \<Rightarrow>
          if \<not> isAvailable availability
          then (Inl (HttpError 400
                  (''Not enough slots available. Only '' @
                   intText (availableSlots availability) @ '' slots left.'')), d3)
          else
            let pricePerPerson = tp_price travelPackage;
                totalAmount = pricePerPerson * of_int (bd_participants bookingData);
                booking = \<lparr>b_id = nextId (map b_id (bookings d3)),
                           b_bookingCode = code,
                           b_customerId = bd_customerId bookingData,
                           b_packageId = bd_packageId bookingData,
                           b_participants = bd_participants bookingData,
                           b_totalAmount = roundDecimal totalAmount,
                           b_departureDate = bd_departureDate bookingData,
                           b_status = B_PENDING,
                           b_notes = bd_notes bookingData\<rparr>
            in if \<not> fitsInt (bd_participants bookingData) \<or> \<not> fitsDecimal totalAmount
               then (Inl P2020, d3)
               else if code \<in> set (map b_bookingCode (bookings d3))
               then (Inl P2002, d3)
               else (Inr booking, d3\<lparr>bookings := bookings d3 @ [booking]\<rparr>))))"

text \<open>The body of an update request: an absent field leaves its column as it is, a
  field that is present is written to its column.\<close>

record booking_patch =
  u_participants :: "int option"
  u_departureDate :: "nat option"
  u_notes :: "string option"
  u_status :: "booking_status option"

definition applyPatch :: "booking_patch \<Rightarrow> rat option \<Rightarrow> booking \<Rightarrow> booking" where
  "applyPatch updateData totalAmount b =
     b\<lparr>b_participants := (case u_participants updateData of None \<Rightarrow> b_participants b | Some p \<Rightarrow> p),
       b_totalAmount := (case totalAmount of None \<Rightarrow> b_totalAmount b | Some t \<Rightarrow> roundDecimal t),
       b_departureDate := (case u_departureDate updateData of None \<Rightarrow> b_departureDate b | Some t \<Rightarrow> t),
       b_notes := (case u_notes updateData of None \<Rightarrow> b_notes b | Some t \<Rightarrow> Some t),
       b_status := (case u_status updateData of None \<Rightarrow> b_status b | Some s \<Rightarrow> s)\<rparr>"

text \<open>
  The block "if participants changed, recalculate total" of \<open>updateBooking\<close>: the new
  \<open>totalAmount\<close>, if one is set. A participant count of 0 is falsy and skips the block.
\<close>

definition patchFits :: "booking_patch \<Rightarrow> rat option \<Rightarrow> bool" where
  "patchFits updateData totalAmount =
     ((case u_participants updateData of None \<Rightarrow> True | Some p \<Rightarrow> fitsInt p) \<and>
      (case totalAmount of None \<Rightarrow> True | Some t \<Rightarrow> fitsDecimal t))"

definition recalculateTotal :: "db \<Rightarrow> booking \<Rightarrow> booking_patch \<Rightarrow> error + rat option" where
  "recalculateTotal d existingBooking updateData =
     (case u_participants updateData of
        None \<Rightarrow> Inr None
      | Some participants \<Rightarrow>
          if participants \<noteq> 0 \<and> participants \<noteq> b_participants existingBooking then
            (case findPackage d (b_packageId existingBooking) of
               None \<Rightarrow> Inl TypeError
             | Some package \<Rightarrow>
                 let pricePerPerson = tp_price package;
                     totalAmount = pricePerPerson * of_int participants;
                     additional = participants - b_participants existingBooking
                 in if additional > 0 then
                      (case fst (checkAvailability d (b_packageId existingBooking) additional) of
                         Inl e \<Rightarrow> Inl e
                       | Inr availability \<Rightarrow>
                           if \<not> isAvailable availability
                           then Inl (HttpError 400
                                  ''Not enough slots available for additional participants'')
                           else Inr (Some totalAmount))
                    else Inr (Some totalAmount))
          else Inr None)"

definition updateBooking :: "db \<Rightarrow> nat \<Rightarrow> booking_patch \<Rightarrow> (error + booking) \<times> db" where
  "updateBooking d i updateData =
     (case getBookingById d i of
        (Inl e, d1) \<Rightarrow> (Inl e, d1)
      | (Inr existingBooking, d1) \<Rightarrow>
          if b_status existingBooking \<in> set [PAID, CONFIRMED, COMPLETED]
          then (Inl (HttpError 400 ''Cannot modify a booking that is already paid or completed''), d1)
          else
            (case recalculateTotal d1 existingBooking updateData of
               Inl e \<Rightarrow> (Inl e, d1)
             | Inr totalAmount \<Rightarrow>
                 if \<not> patchFits updateData totalAmount
                 then (Inl P2020, d1)
                 else (Inr (applyPatch updateData totalAmount existingBooking),
                       updateBookingRow i (applyPatch updateData totalAmount) d1)))"

definition cancelBooking :: "db \<Rightarrow> nat \<Rightarrow> (error + booking) \<times> db" where
  "cancelBooking d i =
     (case getBookingById d i of
        (Inl e, d1) \<Rightarrow> (Inl e, d1)
      | (Inr booking, d1) \<Rightarrow>
          if b_status booking = COMPLETED
          then (Inl (HttpError 400 ''Cannot cancel a completed booking''), d1)
          else (Inr (booking\<lparr>b_status := CANCELED\<rparr>),
                updateBookingRow i (\<lambda>b. b\<lparr>b_status := CANCELED\<rparr>) d1))"

text \<open>A run of \<open>updateBooking\<close> calls, each on the database the call before it left.\<close>

definition updateBookings :: "db \<Rightarrow> (nat \<times> booking_patch) list \<Rightarrow> db" where
  "updateBookings d calls = foldl (\<lambda>s (i, updateData). snd (updateBooking s i updateData)) d calls"

text \<open>Scenario A: quota 10, one PENDING booking of 7 participants.\<close>

definition scenarioA :: db where
  "scenarioA =
     \<lparr>customers = [\<lparr>c_id = 1, c_name = ''Ann'', c_email = ''ann@example.com'',
                     c_phone = None, c_status = PROSPECT\<rparr>],
      travelPackages = [\<lparr>tp_id = 1, tp_name = ''Bali'', tp_price = 3500000,
                          tp_quota = 10, tp_isActive = True\<rparr>],
      bookings = [\<lparr>b_id = 1, b_bookingCode = ''BK1'', b_customerId = 1, b_packageId = 1,
                    b_participants = 7, b_totalAmount = 24500000, b_departureDate = 0,
                    b_status = B_PENDING, b_notes = None\<rparr>],
      payments = []\<rparr>"

text \<open>Scenario B: the same package with no booking yet.\<close>

definition scenarioB :: db where
  "scenarioB = scenarioA\<lparr>bookings := []\<rparr>"

text \<open>Scenario B with the highest price the price column can hold.\<close>

definition scenarioCostly :: db where
  "scenarioCostly =
     scenarioB\<lparr>travelPackages := [\<lparr>tp_id = 1, tp_name = ''Bali'', tp_price = 999999999999 / 100,
                                       tp_quota = 10, tp_isActive = True\<rparr>]\<rparr>"

text \<open>Scenario F: the booking of scenario A, paid.\<close>

definition scenarioF :: db where
  "scenarioF = scenarioA\<lparr>bookings := map (\<lambda>b. b\<lparr>b_status := PAID\<rparr>) (bookings scenarioA)\<rparr>"

section \<open>Payment gateway service\<close>

text \<open>
  The body of a webhook call, with the fields of the provider's notification that the
  service reads. \<open>fraud_status\<close> is optional; the others are strings in every
  notification.
\<close>

record notification =
  order_id :: string
  transaction_status :: string
  fraud_status :: "string option"
  payment_type :: string
  gross_amount :: string
  status_code :: string
  signature_key :: string

text \<open>An environment variable in a template literal: an unset one prints as \<open>undefined\<close>.\<close>

definition templateStr :: "string option \<Rightarrow> string" where
  "templateStr v = (case v of None \<Rightarrow> ''undefined'' | Some s \<Rightarrow> s)"

text \<open>
  \<open>verifySignature\<close> of \<open>src/src/services/midtransService.js\<close>. The hash of the
  platform's crypto library, \<open>createHash('sha512')\<close> followed by \<open>digest('hex')\<close>, is the
  parameter \<open>sha512\<close>; \<open>serverKey\<close> is the environment's MIDTRANS_SERVER_KEY.
\<close>

definition verifySignature :: "(string \<Rightarrow> string) \<Rightarrow> string option \<Rightarrow> notification \<Rightarrow> bool" where
  "verifySignature sha512 serverKey n =
     (let hash = sha512 (order_id n @ status_code n @ gross_amount n @ templateStr serverKey)
      in hash = signature_key n)"

text \<open>
  The chain of conditions of \<open>processNotification\<close> (lines 163 to 191) that determines
  \<open>paymentStatus\<close> and \<open>bookingStatus\<close>, given the booking's current status.
\<close>

definition determineStatus ::
    "string \<Rightarrow> string option \<Rightarrow> booking_status \<Rightarrow> payment_status \<times> booking_status" where
  "determineStatus transactionStatus fraudStatus current =
     (if transactionStatus = ''capture'' then
        (if fraudStatus = Some ''accept'' then (SUCCESS, PAID)
         else if fraudStatus = Some ''challenge'' then (P_PENDING, current)
         else (P_PENDING, current))
      else if transactionStatus = ''settlement'' then (SUCCESS, PAID)
      else if transactionStatus = ''pending'' then (P_PENDING, current)
      else if transactionStatus = ''deny'' \<or> transactionStatus = ''cancel'' then (FAILED, CANCELED)
      else if transactionStatus = ''expire'' then (EXPIRED, CANCELED)
      else if transactionStatus = ''refund'' then (REFUND, current)
      else (P_PENDING, current))"

text \<open>The \<open>data\<close> of the payment update; \<open>now\<close> is the clock read by \<open>new Date()\<close>.\<close>

definition paymentData :: "payment_status \<Rightarrow> string \<Rightarrow> nat \<Rightarrow> payment \<Rightarrow> payment" where
  "paymentData paymentStatus paymentType now p =
     p\<lparr>pay_status := paymentStatus,
       pay_paymentType := Some paymentType,
       pay_paidAt := (if paymentStatus = SUCCESS then Some now else None)\<rparr>"

definition processNotification ::
    "(string \<Rightarrow> string) \<Rightarrow> string option \<Rightarrow> nat \<Rightarrow> db \<Rightarrow> notification \<Rightarrow> (error + payment) \<times> db" where
  "processNotification sha512 serverKey now d n =
     (if \<not> verifySignature sha512 serverKey n
      then (Inl (HttpError 403 ''Invalid signature''), d)
      else
        case findPaymentByOrderId d (order_id n) of
          None \<Rightarrow> (Inl (HttpError 404 ''Payment not found''), d)
        | Some payment \<Rightarrow>
       (case findBooking d (pay_bookingId payment) of
          None \<Rightarrow> (Inl TypeError, d)
        | Some booking \<Rightarrow>
            let (paymentStatus, bookingStatus) =
                  determineStatus (transaction_status n) (fraud_status n) (b_status booking);
                updatedPayment = paymentData paymentStatus (payment_type n) now payment;
                d1 = updatePaymentRow (pay_id payment)
                       (paymentData paymentStatus (payment_type n) now) d
            in if bookingStatus \<noteq> b_status booking then
                 let d2 = updateBookingRow (pay_bookingId payment)
                            (\<lambda>b. b\<lparr>b_status := bookingStatus\<rparr>) d1
                 in if bookingStatus = PAID then
                      (case updateCustomerStatus d2 (b_customerId booking) of
                         (Inl e, d3) \<Rightarrow> (Inl e, d3)
                       | (Inr _, d3) \<Rightarrow> (Inr updatedPayment, d3))
                    else (Inr updatedPayment, d2)
               else (Inr updatedPayment, d1)))"


text \<open>The request sent to the provider, and its answer; a provider call that fails is \<open>None\<close>.\<close>

record snap_parameter =
  sp_order_id :: string
  sp_gross_amount :: int
  sp_first_name :: string
  sp_email :: string
  sp_phone :: string
  sp_item_id :: string
  sp_item_name :: string
  sp_item_price :: int
  sp_item_quantity :: int

record snap_transaction =
  token :: string
  redirect_url :: string

record snap_result =
  sr_payment :: payment
  sr_snapToken :: string
  sr_redirectUrl :: string

text \<open>\<open>parseInt\<close> of a decimal amount: the integer part of its text.\<close>

definition parseInt :: "rat \<Rightarrow> int" where
  "parseInt x = (if 0 \<le> x then \<lfloor>x\<rfloor> else \<lceil>x\<rceil>)"

definition snapParameter :: "string \<Rightarrow> booking \<Rightarrow> customer \<Rightarrow> travel_package \<Rightarrow> snap_parameter" where
  "snapParameter orderId booking customer package =
     \<lparr>sp_order_id = orderId,
      sp_gross_amount = parseInt (b_totalAmount booking),
      sp_first_name = c_name customer,
      sp_email = c_email customer,
      sp_phone = (case c_phone customer of None \<Rightarrow> '''' | Some ph \<Rightarrow> ph),
      sp_item_id = ''PKG-'' @ natText (b_packageId booking),
      sp_item_name = tp_name package,
      sp_item_price = parseInt (tp_price package),
      sp_item_quantity = b_participants booking\<rparr>"

text \<open>
  \<open>createSnapTransaction\<close>. \<open>snap\<close> is the provider and \<open>now\<close> the clock at \<open>Date.now()\<close>.
  \<open>expiredAt\<close> is the instant that \<open>setHours(getHours() + 24)\<close> makes of the clock read
  once the provider has answered: 24 hours of the server's local time later, which the
  time zone decides and which is therefore an input. The insert fails on the unique
  indexes of \<open>bookingId\<close> and \<open>midtransOrderId\<close>; that failure, like the provider's, is
  caught and rethrown as the 500 error.
\<close>

definition createSnapTransaction ::
    "(snap_parameter \<Rightarrow> snap_transaction option) \<Rightarrow> nat \<Rightarrow> nat \<Rightarrow> db \<Rightarrow> booking
       \<Rightarrow> (error + snap_result) \<times> db" where
  "createSnapTransaction snap now expiredAt d booking =
     (let orderId = ''TRV-'' @ b_bookingCode booking @ ''-'' @ natText now in
      case findCustomer d (b_customerId booking) of
        None \<Rightarrow> (Inl TypeError, d)
      | Some customer \<Rightarrow>
     (case findPackage d (b_packageId booking) of
        None \<Rightarrow> (Inl TypeError, d)
      | Some package \<Rightarrow>
     (case snap (snapParameter orderId booking customer package) of
        None \<Rightarrow> (Inl (HttpError 500 ''Failed to create payment transaction''), d)
      | Some transaction \<Rightarrow>
          let payment = \<lparr>pay_id = nextId (map pay_id (payments d)),
                         pay_bookingId = b_id booking,
                         pay_midtransOrderId = orderId,
                         pay_midtransToken = Some (token transaction),
                         pay_paymentUrl = Some (redirect_url transaction),
                         pay_amount = b_totalAmount booking,
                         pay_status = P_PENDING,
                         pay_paymentType = None,
                         pay_paidAt = None,
                         pay_expiredAt = Some expiredAt\<rparr>
          in if b_id booking \<in> set (map pay_bookingId (payments d)) \<or>
                orderId \<in> set (map pay_midtransOrderId (payments d))
             then (Inl (HttpError 500 ''Failed to create payment transaction''), d)
             else (Inr \<lparr>sr_payment = payment,
                        sr_snapToken = token transaction,
                        sr_redirectUrl = redirect_url transaction\<rparr>,
                   d\<lparr>payments := payments d @ [payment]\<rparr>))))"

section \<open>Booking controller: payment initiation\<close>

record user =
  user_type :: string
  user_id :: nat

text \<open>What the handler sends: HTTP status, \<open>success\<close>, \<open>message\<close>, and \<open>data\<close> with
  \<open>snapToken\<close> and \<open>redirectUrl\<close>.\<close>

record response =
  res_status :: nat
  res_success :: bool
  res_message :: string
  res_data :: "(string option \<times> string option) option"

text \<open>\<open>booking.payment && booking.payment.status === 'PENDING'\<close>.\<close>

definition pendingPayment :: "db \<Rightarrow> nat \<Rightarrow> payment option" where
  "pendingPayment d bookingId =
     (case findPaymentOfBooking d bookingId of
        None \<Rightarrow> None
      | Some p \<Rightarrow> if pay_status p = P_PENDING then Some p else None)"

text \<open>
  \<open>initiatePayment\<close> of \<open>src/unnamed/part_004\<close>. \<open>Inr\<close> is the response sent, \<open>Inl\<close> an
  error handed to the error middleware; \<open>now\<close> and \<open>expiredAt\<close> are those of
  \<open>createSnapTransaction\<close>.
\<close>

definition initiatePayment ::
    "(snap_parameter \<Rightarrow> snap_transaction option) \<Rightarrow> nat \<Rightarrow> nat \<Rightarrow> user \<Rightarrow> db \<Rightarrow> nat
       \<Rightarrow> (error + response) \<times> db" where
  "initiatePayment snap now expiredAt reqUser d i =
     (case getBookingById d i of
        (Inl e, d1) \<Rightarrow> (Inl e, d1)
      | (Inr booking, d1) \<Rightarrow>
          if user_type reqUser = ''CUSTOMER'' \<and> b_customerId booking \<noteq> user_id reqUser
          then (Inr \<lparr>res_status = 403, res_success = False,
                     res_message = ''Access denied'', res_data = None\<rparr>, d1)
          else if b_status booking \<noteq> B_PENDING
          then (Inr \<lparr>res_status = 400, res_success = False,
                     res_message = ''Payment can only be initiated for pending bookings'',
                     res_data = None\<rparr>, d1)
          else
            (case pendingPayment d1 (b_id booking) of
               Some p \<Rightarrow>
                 (Inr \<lparr>res_status = 200, res_success = True,
                       res_message = ''Payment already initiated'',
                       res_data = Some (pay_midtransToken p, pay_paymentUrl p)\<rparr>, d1)
             | None \<Rightarrow>
                 (case createSnapTransaction snap now expiredAt d1 booking of
                    (Inl e, d2) \<Rightarrow> (Inl e, d2)
                  | (Inr result, d2) \<Rightarrow>
                      (Inr \<lparr>res_status = 200, res_success = True,
                            res_message = ''Payment initiated successfully'',
                            res_data = Some (Some (sr_snapToken result),
                                             Some (sr_redirectUrl result))\<rparr>, d2))))"

text \<open>
  Concrete scenarios for the webhook. In them the digest parameter is the function
  below and the server key is \<open>SB-key\<close>; the theorems themselves hold for every digest
  function and key.
\<close>

definition exampleDigest :: "string \<Rightarrow> string" where
  "exampleDigest s = ''digest:'' @ s"

definition exampleKey :: "string option" where
  "exampleKey = Some ''SB-key''"

text \<open>Scenario D: the booking of scenario A with a pending payment.\<close>

definition scenarioD :: db where
  "scenarioD =
     scenarioA\<lparr>payments :=
       [\<lparr>pay_id = 1, pay_bookingId = 1, pay_midtransOrderId = ''TRV-BK1-1700000000000'',
         pay_midtransToken = Some ''tok-1'', pay_paymentUrl = Some ''https://pay.example/tok-1'',
         pay_amount = 24500000, pay_status = P_PENDING, pay_paymentType = None,
         pay_paidAt = None, pay_expiredAt = Some 1700086400000\<rparr>]\<rparr>"

text \<open>A correctly signed notification for that order, with the given provider status.\<close>

definition signedNotification :: "string \<Rightarrow> string option \<Rightarrow> notification" where
  "signedNotification ts fs =
     \<lparr>order_id = ''TRV-BK1-1700000000000'',
      transaction_status = ts,
      fraud_status = fs,
      payment_type = ''bank_transfer'',
      gross_amount = ''24500000.00'',
      status_code = ''200'',
      signature_key = exampleDigest (''TRV-BK1-1700000000000'' @ ''200'' @ ''24500000.00'' @ ''SB-key'')\<rparr>"

text \<open>Times of a first delivery and of a redelivery.\<close>

definition settleAt :: nat where
  "settleAt = 1700000500000"


text \<open>The settlement notification with a signature that does not match.\<close>

definition forgedNotification :: notification where
  "forgedNotification = (signedNotification ''settlement'' None)\<lparr>signature_key := ''00''\<rparr>"


text \<open>A provider that answers every request with the same transaction, one that fails,
  and the customer who owns booking 1.\<close>

definition exampleSnap :: "snap_parameter \<Rightarrow> snap_transaction option" where
  "exampleSnap parameter = Some \<lparr>token = ''tok-9'', redirect_url = ''https://pay.example/tok-9''\<rparr>"

definition failingSnap :: "snap_parameter \<Rightarrow> snap_transaction option" where
  "failingSnap parameter = None"

definition owner :: user where
  "owner = \<lparr>user_type = ''CUSTOMER'', user_id = 1\<rparr>"

section \<open>Capacity: theorems\<close>

lemma foldl_participants:
  "foldl (\<lambda>sum booking. sum + b_participants booking) a bs = a + sum_list (map b_participants bs)"
  by (induction bs arbitrary: a) simp_all

lemma booked_slotSum:
  "foldl (\<lambda>sum booking. sum + b_participants booking) 0 (includedBookings d pid) = slotSum d pid"
proof -
  have "sum_list (map b_participants
            (filter (\<lambda>b. b_packageId b = pid \<and> slotHolding (b_status b)) bs))
        = (\<Sum>b \<leftarrow> bs. if b_packageId b = pid \<and> b_status b \<in> {B_PENDING, PAID, CONFIRMED}
                        then b_participants b else 0)" for bs
    by (induction bs) (auto simp: slotHolding_def)
  then show ?thesis
    by (simp add: foldl_participants includedBookings_def slotSum_def)
qed

lemma slotSum_nonClosedSum: "slotSum d pid = nonClosedSum d pid"
proof -
  have "(s \<in> {B_PENDING, PAID, CONFIRMED}) = (s \<notin> {CANCELED, COMPLETED})" for s
    by (cases s) simp_all
  then show ?thesis
    by (simp add: slotSum_def nonClosedSum_def)
qed

text \<open>
  C5. For an existing, active package \<open>checkAvailability\<close> returns
  \<open>availableSlots = quota - (sum of participants over the package's PENDING, PAID and
  CONFIRMED bookings)\<close>, which is the sum that leaves CANCELED and COMPLETED bookings out,
  and \<open>isAvailable = (availableSlots \<ge> requested)\<close>; an absent package gives NotFound
  (404), an inactive one InvalidState (400); in every case the database is returned as
  it was.
\<close>

theorem checkAvailability_spec:
  "(findPackage d pid = None \<longrightarrow>
      checkAvailability d pid n = (Inl (HttpError 404 ''Travel package not found''), d)) \<and>
   (\<forall>pkg. findPackage d pid = Some pkg \<and> \<not> tp_isActive pkg \<longrightarrow>
      checkAvailability d pid n = (Inl (HttpError 400 ''Travel package is not available''), d)) \<and>
   (\<forall>pkg. findPackage d pid = Some pkg \<and> tp_isActive pkg \<longrightarrow>
      checkAvailability d pid n =
        (Inr \<lparr>isAvailable = (tp_quota pkg - slotSum d pid \<ge> n),
              availableSlots = tp_quota pkg - slotSum d pid,
              requestedParticipants = n\<rparr>, d)
      \<and> slotSum d pid = nonClosedSum d pid)"
  by (simp add: checkAvailability_def booked_slotSum slotSum_nonClosedSum Let_def)

theorem checkAvailability_spec_witness:
  "findPackage scenarioA 1 = Some \<lparr>tp_id = 1, tp_name = ''Bali'', tp_price = 3500000,
                                    tp_quota = 10, tp_isActive = True\<rparr> \<and>
   checkAvailability scenarioA 1 4 =
     (Inr \<lparr>isAvailable = False, availableSlots = 3, requestedParticipants = 4\<rparr>, scenarioA)"
proof -
  let ?pkg = "\<lparr>tp_id = 1, tp_name = ''Bali'', tp_price = 3500000,
               tp_quota = 10, tp_isActive = True\<rparr>"
  have found: "findPackage scenarioA 1 = Some ?pkg"
    by (simp add: findPackage_def scenarioA_def)
  have s: "slotSum scenarioA 1 = 7"
    by (simp add: slotSum_def scenarioA_def)
  from checkAvailability_spec [of scenarioA 1 4] found
  have "checkAvailability scenarioA 1 4 =
          (Inr \<lparr>isAvailable = (tp_quota ?pkg - slotSum scenarioA 1 \<ge> 4),
                availableSlots = tp_quota ?pkg - slotSum scenarioA 1,
                requestedParticipants = 4\<rparr>, scenarioA)"
    by simp
  with found s show ?thesis by simp
qed

section \<open>Booking lifecycle: theorems\<close>

lemma floor_half: "\<lfloor>(of_int m :: rat) + 1 / 2\<rfloor> = m"
  by (simp add: floor_unique)

lemma roundDecimal_hundredths:
  assumes "x * 100 = of_int m"
  shows "roundDecimal x = x"
proof -
  have neg: "- x * 100 = of_int (- m)" using assms by simp
  have x: "x = of_int m / 100" using assms by simp
  show ?thesis
    unfolding roundDecimal_def assms neg floor_half
    by (simp add: x)
qed

text \<open>A price of two decimals times a whole number is stored as it is.\<close>

lemma roundDecimal_product:
  assumes "decimalValue p"
  shows "roundDecimal (p * of_int n) = p * of_int n"
proof -
  from assms have "of_int \<lfloor>p * 100\<rfloor> = p * 100"
    unfolding decimalValue_def by (rule conjunct1)
  then have "p * 100 = of_int \<lfloor>p * 100\<rfloor>" by (rule sym)
  then have "p * of_int n * 100 = of_int (\<lfloor>p * 100\<rfloor> * n)"
    by (simp add: mult.commute mult.left_commute)
  then show ?thesis by (rule roundDecimal_hundredths)
qed

lemma fitsDecimal_product:
  assumes "decimalValue p"
  shows "fitsDecimal (p * of_int n) \<longleftrightarrow> \<bar>p * of_int n\<bar> \<le> 999999999999 / 100"
  by (simp only: fitsDecimal_def roundDecimal_product [OF assms])

text \<open>
  C6. Let the customer exist, the package exist, be active and have a price of its
  column's type, and the capacity check report enough slots. Then every booking that
  \<open>createBooking\<close> returns has status PENDING and \<open>totalAmount = price * participants\<close>
  and is the one row added to the table. The call does return one whenever the
  participant count and the total fit their columns (a 32-bit integer, and at most
  9999999999.99) and the generated booking code is not already in use; when the total
  does not fit, the insert is refused and nothing is stored.
\<close>

theorem createBooking_total:
  assumes "findCustomer d (bd_customerId bd) = Some c"
      and "findPackage d (bd_packageId bd) = Some pkg"
      and "decimalValue (tp_price pkg)"
      and "tp_isActive pkg"
      and "fst (checkAvailability d (bd_packageId bd) (bd_participants bd)) = Inr av"
      and "isAvailable av"
  shows "(\<forall>b d'. createBooking code d bd = (Inr b, d') \<longrightarrow>
            b_status b = B_PENDING \<and>
            b_totalAmount b = tp_price pkg * of_int (bd_participants bd) \<and>
            d' = d\<lparr>bookings := bookings d @ [b]\<rparr>) \<and>
         (code \<notin> set (map b_bookingCode (bookings d)) \<and>
          fitsInt (bd_participants bd) \<and>
          \<bar>tp_price pkg * of_int (bd_participants bd)\<bar> \<le> 999999999999 / 100 \<longrightarrow>
            (\<exists>b. createBooking code d bd = (Inr b, d\<lparr>bookings := bookings d @ [b]\<rparr>))) \<and>
         (\<not> \<bar>tp_price pkg * of_int (bd_participants bd)\<bar> \<le> 999999999999 / 100 \<longrightarrow>
            createBooking code d bd = (Inl P2020, d))"
proof -
  let ?total = "tp_price pkg * of_int (bd_participants bd)"
  have r: "checkAvailability d (bd_packageId bd) (bd_participants bd) = (Inr av, d)"
    using assms(2,4,5) by (simp add: checkAvailability_def Let_def)
  have rd: "roundDecimal ?total = ?total"
    by (rule roundDecimal_product [OF assms(3)])
  have fd: "fitsDecimal ?total \<longleftrightarrow> \<bar>?total\<bar> \<le> 999999999999 / 100"
    by (rule fitsDecimal_product [OF assms(3)])
  have call: "createBooking code d bd =
      (if \<not> fitsInt (bd_participants bd) \<or> \<not> fitsDecimal ?total then (Inl P2020, d)
       else if code \<in> set (map b_bookingCode (bookings d)) then (Inl P2002, d)
       else (Inr \<lparr>b_id = nextId (map b_id (bookings d)),
                  b_bookingCode = code,
                  b_customerId = bd_customerId bd,
                  b_packageId = bd_packageId bd,
                  b_participants = bd_participants bd,
                  b_totalAmount = ?total,
                  b_departureDate = bd_departureDate bd,
                  b_status = B_PENDING,
                  b_notes = bd_notes bd\<rparr>,
             d\<lparr>bookings := bookings d @
                [\<lparr>b_id = nextId (map b_id (bookings d)),
                  b_bookingCode = code,
                  b_customerId = bd_customerId bd,
                  b_packageId = bd_packageId bd,
                  b_participants = bd_participants bd,
                  b_totalAmount = ?total,
                  b_departureDate = bd_departureDate bd,
                  b_status = B_PENDING,
                  b_notes = bd_notes bd\<rparr>]\<rparr>))"
    using assms(1,2,4,6) r
    by (simp add: createBooking_def getCustomerById_def getPackageById_def Let_def rd)
  show ?thesis
    unfolding call fd by (auto split: if_splits)
qed

theorem createBooking_total_witness:
  "findCustomer scenarioB 1 \<noteq> None \<and>
   map_option tp_price (findPackage scenarioB 1) = Some 3500000 \<and>
   (\<exists>b. createBooking ''BK2'' scenarioB
           \<lparr>bd_customerId = 1, bd_packageId = 1, bd_participants = 2,
            bd_departureDate = 0, bd_notes = None\<rparr>
         = (Inr b, scenarioB\<lparr>bookings := bookings scenarioB @ [b]\<rparr>) \<and>
        b_status b = B_PENDING \<and> b_totalAmount b = 7000000) \<and>
   map_option tp_price (findPackage scenarioCostly 1) = Some (999999999999 / 100) \<and>
   createBooking ''BK2'' scenarioCostly
           \<lparr>bd_customerId = 1, bd_packageId = 1, bd_participants = 2,
            bd_departureDate = 0, bd_notes = None\<rparr>
     = (Inl P2020, scenarioCostly)"
proof -
  let ?bd = "\<lparr>bd_customerId = 1, bd_packageId = 1, bd_participants = 2,
              bd_departureDate = 0, bd_notes = None\<rparr>"
  let ?pkg = "\<lparr>tp_id = 1, tp_name = ''Bali'', tp_price = 3500000,
               tp_quota = 10, tp_isActive = True\<rparr>"
  let ?costly = "\<lparr>tp_id = 1, tp_name = ''Bali'', tp_price = 999999999999 / 100,
               tp_quota = 10, tp_isActive = True\<rparr>"
  let ?c = "\<lparr>c_id = 1, c_name = ''Ann'', c_email = ''ann@example.com'',
             c_phone = None, c_status = PROSPECT\<rparr>"
  let ?av = "\<lparr>isAvailable = True, availableSlots = 10, requestedParticipants = 2\<rparr>"
  have h1: "findCustomer scenarioB (bd_customerId ?bd) = Some ?c"
    by (simp add: findCustomer_def scenarioB_def scenarioA_def)
  have h2: "findPackage scenarioB (bd_packageId ?bd) = Some ?pkg"
    by (simp add: findPackage_def scenarioB_def scenarioA_def)
  have h3: "decimalValue (tp_price ?pkg)" by (simp add: decimalValue_def)
  have h4: "tp_isActive ?pkg" by simp
  have h5: "fst (checkAvailability scenarioB (bd_packageId ?bd) (bd_participants ?bd)) = Inr ?av"
    by (simp add: checkAvailability_def findPackage_def includedBookings_def
          scenarioB_def scenarioA_def)
  have h6: "isAvailable ?av" by simp
  have fresh: "''BK2'' \<notin> set (map b_bookingCode (bookings scenarioB))"
    by (simp add: scenarioB_def)
  have fits: "fitsInt (bd_participants ?bd)"
             "\<bar>tp_price ?pkg * of_int (bd_participants ?bd)\<bar> \<le> 999999999999 / 100"
    by (simp_all add: fitsInt_def)
  note inst = createBooking_total [OF h1 h2 h3 h4 h5 h6, of "''BK2''"]
  from inst fresh fits obtain b where
    b: "createBooking ''BK2'' scenarioB ?bd = (Inr b, scenarioB\<lparr>bookings := bookings scenarioB @ [b]\<rparr>)"
    by blast
  with inst have "b_status b = B_PENDING \<and> b_totalAmount b = tp_price ?pkg * of_int (bd_participants ?bd)"
    by blast
  with b have ok: "\<exists>b. createBooking ''BK2'' scenarioB ?bd
         = (Inr b, scenarioB\<lparr>bookings := bookings scenarioB @ [b]\<rparr>) \<and>
        b_status b = B_PENDING \<and> b_totalAmount b = 7000000"
    by auto
  have k1: "findCustomer scenarioCostly (bd_customerId ?bd) = Some ?c"
    by (simp add: findCustomer_def scenarioCostly_def scenarioB_def scenarioA_def)
  have k2: "findPackage scenarioCostly (bd_packageId ?bd) = Some ?costly"
    by (simp add: findPackage_def scenarioCostly_def scenarioB_def scenarioA_def)
  have k3: "decimalValue (tp_price ?costly)" by (simp add: decimalValue_def)
  have k4: "tp_isActive ?costly" by simp
  have k5: "fst (checkAvailability scenarioCostly (bd_packageId ?bd) (bd_participants ?bd)) = Inr ?av"
    by (simp add: checkAvailability_def findPackage_def includedBookings_def
          scenarioCostly_def scenarioB_def scenarioA_def)
  have over: "\<not> \<bar>tp_price ?costly * of_int (bd_participants ?bd)\<bar> \<le> 999999999999 / 100"
    by simp
  from createBooking_total [OF k1 k2 k3 k4 k5 h6, of "''BK2''"] over
  have refused: "createBooking ''BK2'' scenarioCostly ?bd = (Inl P2020, scenarioCostly)"
    by blast
  from ok refused h1 h2 k2 show ?thesis by simp
qed

lemma find_updateBookingRow_other:
  assumes "\<And>b. b_id (f b) = b_id b" and "j \<noteq> i"
  shows "findBooking (updateBookingRow j f d) i = findBooking d i"
proof -
  have "find (\<lambda>b. b_id b = i) (map (\<lambda>b. if b_id b = j then f b else b) bs)
        = find (\<lambda>b. b_id b = i) bs" for bs
    using assms by (induction bs) auto
  then show ?thesis by (simp add: findBooking_def updateBookingRow_def)
qed

lemma find_updateBookingRow_same:
  assumes "\<And>b. b_id (f b) = b_id b" and "findBooking d i = Some b"
  shows "findBooking (updateBookingRow i f d) i = Some (f b)"
proof -
  have "find (\<lambda>b. b_id b = i) bs = Some b \<Longrightarrow>
        find (\<lambda>b. b_id b = i) (map (\<lambda>b. if b_id b = i then f b else b) bs) = Some (f b)" for bs
    using assms(1) by (induction bs) (auto split: if_splits)
  with assms(2) show ?thesis by (simp add: findBooking_def updateBookingRow_def)
qed

lemma applyPatch_id: "b_id (applyPatch u t b) = b_id b"
  by (simp add: applyPatch_def)

lemma updateBooking_blocked:
  assumes "findBooking d i = Some b"
      and "b_status b = PAID \<or> b_status b = CONFIRMED \<or> b_status b = COMPLETED"
  shows "updateBooking d i u =
           (Inl (HttpError 400 ''Cannot modify a booking that is already paid or completed''), d)"
  using assms by (auto simp: updateBooking_def getBookingById_def)

lemma updateBooking_keeps_blocked:
  assumes "findBooking d i = Some b"
      and "b_status b = PAID \<or> b_status b = CONFIRMED \<or> b_status b = COMPLETED"
  shows "findBooking (snd (updateBooking d j u)) i = Some b"
proof (cases "j = i")
  case True
  with assms show ?thesis by (simp add: updateBooking_blocked)
next
  case False
  then show ?thesis
    using assms(1)
    by (auto simp: updateBooking_def getBookingById_def find_updateBookingRow_other applyPatch_id
             split: option.splits sum.splits)
qed

lemma updateBookings_keeps_blocked:
  assumes "b_status b = PAID \<or> b_status b = CONFIRMED \<or> b_status b = COMPLETED"
  shows "findBooking d i = Some b \<Longrightarrow> findBooking (updateBookings d calls) i = Some b"
  unfolding updateBookings_def
proof (induction calls arbitrary: d)
  case Nil
  then show ?case by simp
next
  case (Cons c calls)
  obtain j u where c: "c = (j, u)" by (cases c)
  from Cons.prems assms have "findBooking (snd (updateBooking d j u)) i = Some b"
    by (rule updateBooking_keeps_blocked)
  then show ?case using Cons.IH c by simp
qed

text \<open>
  C7, as the code has it. The guard of \<open>updateBooking\<close> reads the booking's current
  status. On a booking whose status is PAID, CONFIRMED or COMPLETED every
  \<open>updateBooking\<close> call fails with InvalidState (400) and returns the database as it
  was; hence after any run of \<open>updateBooking\<close> calls, on this booking or on others, with
  no other operation in between, the booking's row, with its \<open>totalAmount\<close> and
  \<open>participants\<close>, is still the same.
\<close>

theorem updateBooking_immutable:
  assumes "findBooking d i = Some b"
      and "b_status b = PAID \<or> b_status b = CONFIRMED \<or> b_status b = COMPLETED"
  shows "updateBooking d i u =
           (Inl (HttpError 400 ''Cannot modify a booking that is already paid or completed''), d) \<and>
         findBooking (updateBookings d calls) i = Some b \<and>
         map_option b_totalAmount (findBooking (updateBookings d calls) i) = Some (b_totalAmount b) \<and>
         map_option b_participants (findBooking (updateBookings d calls) i) = Some (b_participants b)"
  using assms updateBooking_blocked [of d i b u] updateBookings_keeps_blocked [of b d i calls]
  by simp

theorem updateBooking_immutable_witness:
  "map_option b_status (findBooking scenarioF 1) = Some PAID \<and>
   updateBooking scenarioF 1
       \<lparr>u_participants = Some 9, u_departureDate = None, u_notes = None, u_status = Some B_PENDING\<rparr>
     = (Inl (HttpError 400 ''Cannot modify a booking that is already paid or completed''), scenarioF) \<and>
   map_option b_participants (findBooking (updateBookings scenarioF
       [(1, \<lparr>u_participants = Some 9, u_departureDate = None, u_notes = None, u_status = None\<rparr>),
        (1, \<lparr>u_participants = None, u_departureDate = None, u_notes = None, u_status = Some CANCELED\<rparr>)]) 1)
     = Some 7"
proof -
  let ?b = "\<lparr>b_id = 1, b_bookingCode = ''BK1'', b_customerId = 1, b_packageId = 1,
             b_participants = 7, b_totalAmount = 24500000, b_departureDate = 0,
             b_status = PAID, b_notes = None\<rparr>"
  have h1: "findBooking scenarioF 1 = Some ?b"
    by (simp add: findBooking_def scenarioF_def scenarioA_def)
  have h2: "b_status ?b = PAID \<or> b_status ?b = CONFIRMED \<or> b_status ?b = COMPLETED"
    by simp
  from updateBooking_immutable [OF h1 h2] h1 show ?thesis by simp
qed

text \<open>
  The claim of C7 as the specification words it, that no later \<open>updateBooking\<close> call
  changes the totals once a booking has reached PAID, fails in scenario F: the PAID
  booking is canceled, which \<open>cancelBooking\<close> allows, and the \<open>updateBooking\<close> call after
  that passes the guard, sets 9 participants and a total of 31500000 in place of 7 and
  24500000, and sets the status back to PAID.
\<close>

theorem updateBooking_after_cancel_counterexample:
  "findBooking scenarioF 1 =
     Some \<lparr>b_id = 1, b_bookingCode = ''BK1'', b_customerId = 1, b_packageId = 1,
            b_participants = 7, b_totalAmount = 24500000, b_departureDate = 0,
            b_status = PAID, b_notes = None\<rparr> \<and>
   \<not> isl (fst (cancelBooking scenarioF 1)) \<and>
   \<not> isl (fst (updateBooking (snd (cancelBooking scenarioF 1)) 1
       \<lparr>u_participants = Some 9, u_departureDate = None, u_notes = None,
        u_status = Some PAID\<rparr>)) \<and>
   findBooking (snd (updateBooking (snd (cancelBooking scenarioF 1)) 1
       \<lparr>u_participants = Some 9, u_departureDate = None, u_notes = None,
        u_status = Some PAID\<rparr>)) 1 =
     Some \<lparr>b_id = 1, b_bookingCode = ''BK1'', b_customerId = 1, b_packageId = 1,
            b_participants = 9, b_totalAmount = 31500000, b_departureDate = 0,
            b_status = PAID, b_notes = None\<rparr>"
proof -
  have rd: "roundDecimal 31500000 = 31500000" by code_simp
  have fd: "fitsDecimal 31500000" by code_simp
  show ?thesis
    by (simp add: scenarioF_def scenarioA_def cancelBooking_def updateBooking_def
          getBookingById_def findBooking_def updateBookingRow_def recalculateTotal_def
          findPackage_def checkAvailability_def includedBookings_def slotHolding_def
          patchFits_def fitsInt_def applyPatch_def rd fd Let_def)
qed

text \<open>
  C8, as the code has it. \<open>cancelBooking\<close> refuses only a COMPLETED booking (InvalidState,
  400, nothing changed); a booking in any other status, PAID included, is canceled: the
  call succeeds and the stored status becomes CANCELED.
\<close>

theorem cancelBooking_guard:
  assumes "findBooking d i = Some b"
  shows "(b_status b = COMPLETED \<longrightarrow>
            cancelBooking d i = (Inl (HttpError 400 ''Cannot cancel a completed booking''), d)) \<and>
         (b_status b \<noteq> COMPLETED \<longrightarrow>
            fst (cancelBooking d i) = Inr (b\<lparr>b_status := CANCELED\<rparr>) \<and>
            findBooking (snd (cancelBooking d i)) i = Some (b\<lparr>b_status := CANCELED\<rparr>))"
  using assms
  by (simp add: cancelBooking_def getBookingById_def find_updateBookingRow_same)

theorem cancelBooking_guard_witness:
  "map_option b_status (findBooking scenarioF 1) = Some PAID \<and>
   map_option b_status (findBooking (snd (cancelBooking scenarioF 1)) 1) = Some CANCELED"
proof -
  let ?b = "\<lparr>b_id = 1, b_bookingCode = ''BK1'', b_customerId = 1, b_packageId = 1,
             b_participants = 7, b_totalAmount = 24500000, b_departureDate = 0,
             b_status = PAID, b_notes = None\<rparr>"
  have h1: "findBooking scenarioF 1 = Some ?b"
    by (simp add: findBooking_def scenarioF_def scenarioA_def)
  from cancelBooking_guard [OF h1] h1 show ?thesis by simp
qed

text \<open>
  The claim of C8 as the specification words it (a PAID booking cannot be canceled) fails
  in scenario F: the call returns no error and the booking is CANCELED afterwards.
\<close>

theorem cancelBooking_paid_counterexample:
  "map_option b_status (findBooking scenarioF 1) = Some PAID \<and>
   \<not> isl (fst (cancelBooking scenarioF 1)) \<and>
   map_option b_status (findBooking (snd (cancelBooking scenarioF 1)) 1) = Some CANCELED"
  by (simp add: scenarioF_def scenarioA_def cancelBooking_def getBookingById_def findBooking_def
        updateBookingRow_def)

section \<open>Webhook: theorems\<close>


lemma paymentData_orderId [simp]:
  "pay_midtransOrderId (paymentData s t now q) = pay_midtransOrderId q"
  by (simp add: paymentData_def)

lemma paymentData_id [simp]: "pay_id (paymentData s t now q) = pay_id q"
  by (simp add: paymentData_def)


lemma row_update_fields [simp]:
  "payments (updateBookingRow i f d) = payments d"
  "customers (updateBookingRow i f d) = customers d"
  "travelPackages (updateBookingRow i f d) = travelPackages d"
  "bookings (updatePaymentRow j g d) = bookings d"
  "customers (updatePaymentRow j g d) = customers d"
  "travelPackages (updatePaymentRow j g d) = travelPackages d"
  "payments (updateCustomerRow k h d) = payments d"
  "bookings (updateCustomerRow k h d) = bookings d"
  "travelPackages (updateCustomerRow k h d) = travelPackages d"
  by (simp_all add: updateBookingRow_def updatePaymentRow_def updateCustomerRow_def)

lemma updateCustomerStatus_fields [simp]:
  "payments (snd (updateCustomerStatus d c)) = payments d"
  "bookings (snd (updateCustomerStatus d c)) = bookings d"
  "travelPackages (snd (updateCustomerStatus d c)) = travelPackages d"
  by (simp_all add: updateCustomerStatus_def Let_def split: option.splits)












lemma signedNotification_fields [simp]:
  "order_id (signedNotification ts fs) = ''TRV-BK1-1700000000000''"
  "transaction_status (signedNotification ts fs) = ts"
  "fraud_status (signedNotification ts fs) = fs"
  "payment_type (signedNotification ts fs) = ''bank_transfer''"
  by (simp_all add: signedNotification_def)



lemma scenarioD_booking:
  "findBooking scenarioD 1 =
     Some \<lparr>b_id = 1, b_bookingCode = ''BK1'', b_customerId = 1, b_packageId = 1,
                    b_participants = 7, b_totalAmount = 24500000, b_departureDate = 0,
                    b_status = B_PENDING, b_notes = None\<rparr>"
  by (simp add: findBooking_def scenarioD_def scenarioA_def)







text \<open>
  C4. \<open>verifySignature\<close> compares the digest of
  \<open>order_id + status_code + gross_amount + serverKey\<close> with the payload's
  \<open>signature_key\<close>; when they differ \<open>processNotification\<close> fails with Forbidden (403) and
  returns the database as it was.
\<close>

theorem invalid_signature_rejected:
  "verifySignature H key n =
     (H (order_id n @ status_code n @ gross_amount n @ templateStr key) = signature_key n) \<and>
   (H (order_id n @ status_code n @ gross_amount n @ templateStr key) \<noteq> signature_key n \<longrightarrow>
      processNotification H key now d n = (Inl (HttpError 403 ''Invalid signature''), d))"
  by (simp add: verifySignature_def processNotification_def)

theorem invalid_signature_rejected_witness:
  "exampleDigest (order_id forgedNotification @ status_code forgedNotification @
       gross_amount forgedNotification @ templateStr exampleKey) \<noteq> signature_key forgedNotification \<and>
   processNotification exampleDigest exampleKey settleAt scenarioD forgedNotification
     = (Inl (HttpError 403 ''Invalid signature''), scenarioD)"
proof -
  have h: "exampleDigest (order_id forgedNotification @ status_code forgedNotification @
       gross_amount forgedNotification @ templateStr exampleKey) \<noteq> signature_key forgedNotification"
    by (simp add: forgedNotification_def signedNotification_def exampleDigest_def)
  from invalid_signature_rejected [of exampleDigest exampleKey forgedNotification settleAt scenarioD] h
  show ?thesis by blast
qed
















section \<open>Payment initiation: theorems\<close>

lemma findBooking_id: "findBooking d i = Some b \<Longrightarrow> b_id b = i"
  by (auto simp: findBooking_def find_Some_iff)

lemma initiatePayment_not_pending:
  assumes "findBooking d i = Some b"
      and "user_type u = ''CUSTOMER'' \<longrightarrow> b_customerId b = user_id u"
      and "b_status b \<noteq> B_PENDING"
  shows "initiatePayment snap now later u d i =
           (Inr \<lparr>res_status = 400, res_success = False,
                 res_message = ''Payment can only be initiated for pending bookings'',
                 res_data = None\<rparr>, d)"
  using assms by (auto simp: initiatePayment_def getBookingById_def)

lemma initiatePayment_existing:
  assumes "findBooking d i = Some b"
      and "user_type u = ''CUSTOMER'' \<longrightarrow> b_customerId b = user_id u"
      and "b_status b = B_PENDING"
      and "findPaymentOfBooking d i = Some p"
      and "pay_status p = P_PENDING"
  shows "initiatePayment snap now later u d i =
           (Inr \<lparr>res_status = 200, res_success = True,
                 res_message = ''Payment already initiated'',
                 res_data = Some (pay_midtransToken p, pay_paymentUrl p)\<rparr>, d)"
  using assms findBooking_id [OF assms(1)]
  by (auto simp: initiatePayment_def getBookingById_def pendingPayment_def)

lemma find_append_new:
  "find P xs = None \<Longrightarrow> P y \<Longrightarrow> find P (xs @ [y]) = Some y"
  by (induction xs) (auto split: if_splits)

lemma find_None_not_in: "find (\<lambda>p. pay_bookingId p = i) ps = None \<Longrightarrow> i \<notin> set (map pay_bookingId ps)"
  by (auto simp: find_None_iff)

lemma initiatePayment_first:
  assumes "findBooking d i = Some b"
      and "user_type u = ''CUSTOMER'' \<longrightarrow> b_customerId b = user_id u"
      and "b_status b = B_PENDING"
      and "findPaymentOfBooking d i = None"
      and "findCustomer d (b_customerId b) = Some c"
      and "findPackage d (b_packageId b) = Some pkg"
      and "snap (snapParameter (''TRV-'' @ b_bookingCode b @ ''-'' @ natText now) b c pkg) = Some tr"
      and "(''TRV-'' @ b_bookingCode b @ ''-'' @ natText now) \<notin> set (map pay_midtransOrderId (payments d))"
  shows "\<exists>p. initiatePayment snap now later u d i =
           (Inr \<lparr>res_status = 200, res_success = True,
                 res_message = ''Payment initiated successfully'',
                 res_data = Some (Some (token tr), Some (redirect_url tr))\<rparr>,
            d\<lparr>payments := payments d @ [p]\<rparr>) \<and>
           pay_bookingId p = i \<and> pay_status p = P_PENDING \<and>
           pay_midtransToken p = Some (token tr) \<and> pay_paymentUrl p = Some (redirect_url tr)"
proof -
  have id: "b_id b = i" by (rule findBooking_id [OF assms(1)])
  have none: "i \<notin> set (map pay_bookingId (payments d))"
    using assms(4) by (intro find_None_not_in) (simp add: findPaymentOfBooking_def)
  have pend: "pendingPayment d i = None"
    using assms(4) by (simp add: pendingPayment_def)
  show ?thesis
    using assms(1,2,3,5,6,7,8) id none pend
    by (fastforce simp: initiatePayment_def getBookingById_def createSnapTransaction_def Let_def)
qed

lemma initiatePayment_second:
  assumes "findBooking d i = Some b"
      and "user_type u = ''CUSTOMER'' \<longrightarrow> b_customerId b = user_id u"
      and "b_status b = B_PENDING"
      and "findPaymentOfBooking d i = None"
      and "pay_bookingId p = i" and "pay_status p = P_PENDING"
  shows "initiatePayment snap now later u (d\<lparr>payments := payments d @ [p]\<rparr>) i =
           (Inr \<lparr>res_status = 200, res_success = True,
                 res_message = ''Payment already initiated'',
                 res_data = Some (pay_midtransToken p, pay_paymentUrl p)\<rparr>,
            d\<lparr>payments := payments d @ [p]\<rparr>)"
proof -
  let ?d1 = "d\<lparr>payments := payments d @ [p]\<rparr>"
  have b1: "findBooking ?d1 i = Some b"
    using assms(1) by (simp add: findBooking_def)
  have p1: "findPaymentOfBooking ?d1 i = Some p"
    using assms(4,5) find_append_new [of "\<lambda>q. pay_bookingId q = i" "payments d" p]
    by (simp add: findPaymentOfBooking_def)
  show ?thesis
    by (rule initiatePayment_existing [OF b1 assms(2,3) p1 assms(6)])
qed

text \<open>
  C9. The caller is one who may act on the booking: a staff user, or the customer who owns
  it (any other customer is answered 403 before the status is looked at). Then
  \<^item> for a booking that is not PENDING, \<open>initiatePayment\<close> answers 400 (InvalidState) and
    changes nothing;
  \<^item> for a PENDING booking that has a PENDING payment, it answers with that payment's
    token and redirect URL and changes nothing, so a second call, whatever the provider
    or the clock, gives the same answer and no second payment row;
  \<^item> for a PENDING booking without a payment, when the provider answers and the order
    id is new, the call stores one payment and answers with the provider's token and
    URL, and a second call answers with the same token and URL and stores nothing.
\<close>

theorem initiatePayment_idempotent:
  assumes "findBooking d i = Some b"
      and "user_type u = ''CUSTOMER'' \<longrightarrow> b_customerId b = user_id u"
  shows "(b_status b \<noteq> B_PENDING \<longrightarrow>
            initiatePayment snap now later u d i =
              (Inr \<lparr>res_status = 400, res_success = False,
                    res_message = ''Payment can only be initiated for pending bookings'',
                    res_data = None\<rparr>, d)) \<and>
         (\<forall>p. b_status b = B_PENDING \<and> findPaymentOfBooking d i = Some p \<and>
              pay_status p = P_PENDING \<longrightarrow>
            initiatePayment snap now later u d i =
              (Inr \<lparr>res_status = 200, res_success = True,
                    res_message = ''Payment already initiated'',
                    res_data = Some (pay_midtransToken p, pay_paymentUrl p)\<rparr>, d) \<and>
            initiatePayment snap2 now2 later2 u (snd (initiatePayment snap now later u d i)) i =
              initiatePayment snap now later u d i) \<and>
         (\<forall>c pkg tr.
              b_status b = B_PENDING \<and> findPaymentOfBooking d i = None \<and>
              findCustomer d (b_customerId b) = Some c \<and>
              findPackage d (b_packageId b) = Some pkg \<and>
              snap (snapParameter (''TRV-'' @ b_bookingCode b @ ''-'' @ natText now) b c pkg)
                = Some tr \<and>
              (''TRV-'' @ b_bookingCode b @ ''-'' @ natText now)
                \<notin> set (map pay_midtransOrderId (payments d)) \<longrightarrow>
            (\<exists>p. initiatePayment snap now later u d i =
                   (Inr \<lparr>res_status = 200, res_success = True,
                         res_message = ''Payment initiated successfully'',
                         res_data = Some (Some (token tr), Some (redirect_url tr))\<rparr>,
                    d\<lparr>payments := payments d @ [p]\<rparr>) \<and>
                 initiatePayment snap2 now2 later2 u (d\<lparr>payments := payments d @ [p]\<rparr>) i =
                   (Inr \<lparr>res_status = 200, res_success = True,
                         res_message = ''Payment already initiated'',
                         res_data = Some (Some (token tr), Some (redirect_url tr))\<rparr>,
                    d\<lparr>payments := payments d @ [p]\<rparr>)))"
proof (intro conjI allI impI)
  assume "b_status b \<noteq> B_PENDING"
  then show "initiatePayment snap now later u d i =
              (Inr \<lparr>res_status = 400, res_success = False,
                    res_message = ''Payment can only be initiated for pending bookings'',
                    res_data = None\<rparr>, d)"
    by (rule initiatePayment_not_pending [OF assms])
next
  fix p
  assume h: "b_status b = B_PENDING \<and> findPaymentOfBooking d i = Some p \<and> pay_status p = P_PENDING"
  then have e: "initiatePayment sn nw lt u d i =
              (Inr \<lparr>res_status = 200, res_success = True,
                    res_message = ''Payment already initiated'',
                    res_data = Some (pay_midtransToken p, pay_paymentUrl p)\<rparr>, d)" for sn nw lt
    using initiatePayment_existing [OF assms, of p] by blast
  show "initiatePayment snap now later u d i =
              (Inr \<lparr>res_status = 200, res_success = True,
                    res_message = ''Payment already initiated'',
                    res_data = Some (pay_midtransToken p, pay_paymentUrl p)\<rparr>, d)"
    by (rule e)
  show "initiatePayment snap2 now2 later2 u (snd (initiatePayment snap now later u d i)) i =
              initiatePayment snap now later u d i"
    by (simp add: e)
next
  fix c pkg tr
  assume h: "b_status b = B_PENDING \<and> findPaymentOfBooking d i = None \<and>
              findCustomer d (b_customerId b) = Some c \<and>
              findPackage d (b_packageId b) = Some pkg \<and>
              snap (snapParameter (''TRV-'' @ b_bookingCode b @ ''-'' @ natText now) b c pkg)
                = Some tr \<and>
              (''TRV-'' @ b_bookingCode b @ ''-'' @ natText now)
                \<notin> set (map pay_midtransOrderId (payments d))"
  from h initiatePayment_first [OF assms, of c pkg snap now tr later]
  obtain p where p: "initiatePayment snap now later u d i =
           (Inr \<lparr>res_status = 200, res_success = True,
                 res_message = ''Payment initiated successfully'',
                 res_data = Some (Some (token tr), Some (redirect_url tr))\<rparr>,
            d\<lparr>payments := payments d @ [p]\<rparr>)"
    "pay_bookingId p = i" "pay_status p = P_PENDING"
    "pay_midtransToken p = Some (token tr)" "pay_paymentUrl p = Some (redirect_url tr)"
    by blast
  from h have pend: "b_status b = B_PENDING" and none: "findPaymentOfBooking d i = None"
    by simp_all
  have "initiatePayment snap2 now2 later2 u (d\<lparr>payments := payments d @ [p]\<rparr>) i =
                   (Inr \<lparr>res_status = 200, res_success = True,
                         res_message = ''Payment already initiated'',
                         res_data = Some (Some (token tr), Some (redirect_url tr))\<rparr>,
                    d\<lparr>payments := payments d @ [p]\<rparr>)"
    using initiatePayment_second [OF assms pend none p(2,3), of snap2 now2 later2] p(4,5)
    by simp
  with p(1) show "\<exists>p. initiatePayment snap now later u d i =
                   (Inr \<lparr>res_status = 200, res_success = True,
                         res_message = ''Payment initiated successfully'',
                         res_data = Some (Some (token tr), Some (redirect_url tr))\<rparr>,
                    d\<lparr>payments := payments d @ [p]\<rparr>) \<and>
                 initiatePayment snap2 now2 later2 u (d\<lparr>payments := payments d @ [p]\<rparr>) i =
                   (Inr \<lparr>res_status = 200, res_success = True,
                         res_message = ''Payment already initiated'',
                         res_data = Some (Some (token tr), Some (redirect_url tr))\<rparr>,
                    d\<lparr>payments := payments d @ [p]\<rparr>)"
    by (intro exI [of _ p] conjI)
qed

lemma scenario_bookings:
  "findBooking scenarioA 1 =
     Some \<lparr>b_id = 1, b_bookingCode = ''BK1'', b_customerId = 1, b_packageId = 1,
            b_participants = 7, b_totalAmount = 24500000, b_departureDate = 0,
            b_status = B_PENDING, b_notes = None\<rparr>"
  "findBooking scenarioF 1 =
     Some \<lparr>b_id = 1, b_bookingCode = ''BK1'', b_customerId = 1, b_packageId = 1,
            b_participants = 7, b_totalAmount = 24500000, b_departureDate = 0,
            b_status = PAID, b_notes = None\<rparr>"
  by (simp_all add: findBooking_def scenarioA_def scenarioF_def)

theorem initiatePayment_idempotent_witness:
  "initiatePayment failingSnap 0 0 owner scenarioF 1 =
     (Inr \<lparr>res_status = 400, res_success = False,
           res_message = ''Payment can only be initiated for pending bookings'',
           res_data = None\<rparr>, scenarioF) \<and>
   initiatePayment failingSnap 0 0 owner scenarioD 1 =
     (Inr \<lparr>res_status = 200, res_success = True,
           res_message = ''Payment already initiated'',
           res_data = Some (Some ''tok-1'', Some ''https://pay.example/tok-1'')\<rparr>, scenarioD) \<and>
   (\<exists>p. initiatePayment exampleSnap 1700000000000 1700000000350 owner scenarioA 1 =
          (Inr \<lparr>res_status = 200, res_success = True,
                res_message = ''Payment initiated successfully'',
                res_data = Some (Some ''tok-9'', Some ''https://pay.example/tok-9'')\<rparr>,
           scenarioA\<lparr>payments := [p]\<rparr>) \<and>
        initiatePayment failingSnap 1700000007000 1700000007000 owner
            (scenarioA\<lparr>payments := [p]\<rparr>) 1 =
          (Inr \<lparr>res_status = 200, res_success = True,
                res_message = ''Payment already initiated'',
                res_data = Some (Some ''tok-9'', Some ''https://pay.example/tok-9'')\<rparr>,
           scenarioA\<lparr>payments := [p]\<rparr>))"
proof -
  let ?bA = "\<lparr>b_id = 1, b_bookingCode = ''BK1'', b_customerId = 1, b_packageId = 1,
            b_participants = 7, b_totalAmount = 24500000, b_departureDate = 0,
            b_status = B_PENDING, b_notes = None\<rparr>"
  let ?bF = "?bA\<lparr>b_status := PAID\<rparr>"
  let ?c = "\<lparr>c_id = 1, c_name = ''Ann'', c_email = ''ann@example.com'',
             c_phone = None, c_status = PROSPECT\<rparr>"
  let ?pkg = "\<lparr>tp_id = 1, tp_name = ''Bali'', tp_price = 3500000,
               tp_quota = 10, tp_isActive = True\<rparr>"
  let ?tr = "\<lparr>token = ''tok-9'', redirect_url = ''https://pay.example/tok-9''\<rparr>"
  have own: "user_type owner = ''CUSTOMER'' \<longrightarrow> b_customerId ?bA = user_id owner"
            "user_type owner = ''CUSTOMER'' \<longrightarrow> b_customerId ?bF = user_id owner"
    by (simp_all add: owner_def)
  have fF: "findBooking scenarioF 1 = Some ?bF" using scenario_bookings(2) by simp
  have fD: "findBooking scenarioD 1 = Some ?bA" using scenarioD_booking by simp
  have fA: "findBooking scenarioA 1 = Some ?bA" using scenario_bookings(1) by simp
  have pD: "findPaymentOfBooking scenarioD 1 =
              Some \<lparr>pay_id = 1, pay_bookingId = 1, pay_midtransOrderId = ''TRV-BK1-1700000000000'',
                pay_midtransToken = Some ''tok-1'', pay_paymentUrl = Some ''https://pay.example/tok-1'',
                pay_amount = 24500000, pay_status = P_PENDING, pay_paymentType = None,
                pay_paidAt = None, pay_expiredAt = Some 1700086400000\<rparr>"
    by (simp add: findPaymentOfBooking_def scenarioD_def)
  have pA: "findPaymentOfBooking scenarioA 1 = None" "payments scenarioA = []"
    by (simp_all add: findPaymentOfBooking_def scenarioA_def)
  have cA: "findCustomer scenarioA (b_customerId ?bA) = Some ?c"
    by (simp add: findCustomer_def scenarioA_def)
  have kA: "findPackage scenarioA (b_packageId ?bA) = Some ?pkg"
    by (simp add: findPackage_def scenarioA_def)
  have a: "initiatePayment failingSnap 0 0 owner scenarioF 1 =
     (Inr \<lparr>res_status = 400, res_success = False,
           res_message = ''Payment can only be initiated for pending bookings'',
           res_data = None\<rparr>, scenarioF)"
    using initiatePayment_idempotent [OF fF own(2), THEN conjunct1, of failingSnap 0 0] by simp
  have b: "initiatePayment failingSnap 0 0 owner scenarioD 1 =
     (Inr \<lparr>res_status = 200, res_success = True,
           res_message = ''Payment already initiated'',
           res_data = Some (Some ''tok-1'', Some ''https://pay.example/tok-1'')\<rparr>, scenarioD)"
    using initiatePayment_idempotent [OF fD own(1), THEN conjunct2, THEN conjunct1,
            of failingSnap 0 0] pD
    by simp
  have c: "\<exists>p. initiatePayment exampleSnap 1700000000000 1700000000350 owner scenarioA 1 =
          (Inr \<lparr>res_status = 200, res_success = True,
                res_message = ''Payment initiated successfully'',
                res_data = Some (Some (token ?tr), Some (redirect_url ?tr))\<rparr>,
           scenarioA\<lparr>payments := payments scenarioA @ [p]\<rparr>) \<and>
        initiatePayment failingSnap 1700000007000 1700000007000 owner
            (scenarioA\<lparr>payments := payments scenarioA @ [p]\<rparr>) 1 =
          (Inr \<lparr>res_status = 200, res_success = True,
                res_message = ''Payment already initiated'',
                res_data = Some (Some (token ?tr), Some (redirect_url ?tr))\<rparr>,
           scenarioA\<lparr>payments := payments scenarioA @ [p]\<rparr>)"
    using initiatePayment_idempotent [OF fA own(1), THEN conjunct2, THEN conjunct2, rule_format,
            of ?c ?pkg exampleSnap 1700000000000 ?tr 1700000000350 failingSnap 1700000007000 1700000007000]
          pA cA kA
    by (simp add: exampleSnap_def)
  from a b c pA(2) show ?thesis by simp
qed

end
